theory Spec2Isabelle
  imports Main
begin

section \<open>Results, promises and function completions\<close>

text \<open>
  The interface \<open>BarcodeDetectionResult\<close> of \<open>services/barcodeDetectionService.ts\<close>:
  \<open>success\<close> is mandatory, the three other fields are optional (absent is \<open>None\<close>).
\<close>

record BarcodeDetectionResult =
  success :: bool
  barcode :: "string option"
  error :: "string option"
  format :: "string option"

text \<open>A value thrown by JavaScript code or passed to \<open>reject\<close>.\<close>

datatype js_error = JsError string

text \<open>
  What the caller of an \<open>async\<close> function observes when it awaits the returned promise:
  a value, a rejection, or a promise that nobody ever settles.
\<close>

datatype 'a promise = Resolved 'a | Rejected js_error | Pending

text \<open>
  How the body of a function ends: \<open>return v\<close> with a plain value, \<open>return p\<close> with a
  promise (written without \<open>await\<close>), or a synchronous \<open>throw\<close>.
\<close>

datatype 'a completion = Return 'a | ReturnPromise "'a promise" | Throw js_error

text \<open>
  \<open>try { body } catch (error) { handler }\<close>: the handler sees only what the body throws
  synchronously. A promise that the body returns without awaiting it leaves the block
  as a normal return; its later rejection is not seen by the handler.
\<close>

fun try_catch :: "'a completion \<Rightarrow> (js_error \<Rightarrow> 'a completion) \<Rightarrow> 'a completion" where
  "try_catch (Throw e) handler = handler e"
| "try_catch (Return v) handler = Return v"
| "try_catch (ReturnPromise p) handler = ReturnPromise p"

text \<open>
  The promise of an \<open>async\<close> function: a returned value resolves it, a thrown value
  rejects it, and a returned promise is adopted (it settles the way that promise does).
\<close>

fun async :: "'a completion \<Rightarrow> 'a promise" where
  "async (Return v) = Resolved v"
| "async (ReturnPromise p) = p"
| "async (Throw e) = Rejected e"

section \<open>The camera backend (Quagga) and the service state\<close>

text \<open>
  The \<open>codeResult\<close> object of a Quagga decode: \<open>data.codeResult.code\<close> and
  \<open>data.codeResult.format\<close>.
\<close>

datatype codeResult = CodeResult (code: string) (cr_format: string)

text \<open>The calls the service makes on the Quagga live-stream API, in the order made.\<close>

datatype quagga_call = QInit string | QStart | QOnDetected | QStop | QOffDetected

text \<open>
  The state the service works on. \<open>isInitialized\<close> is the private static flag of
  \<open>BarcodeDetectionService\<close>. The other fields are the external collaborators, seen at
  their interface: whether the Quagga frame pipeline runs, the subscriptions to its
  \<open>detected\<close> event (one entry per registration, each standing for the closure that
  \<open>startCameraDetection\<close> builds around the consumer callback \<open>'cb\<close>), the calls made
  on Quagga so far, and every invocation of a consumer callback with the result it
  received, oldest first.
\<close>

record 'cb world =
  isInitialized :: bool
  quagga_running :: bool
  quagga_detected :: "'cb list"
  quagga_calls :: "quagga_call list"
  invoked :: "('cb \<times> BarcodeDetectionResult) list"

text \<open>\<open>private static isInitialized = false\<close>, nothing running, nothing called yet.\<close>

definition initial_world :: "'cb world" where
  "initial_world =
     \<lparr>isInitialized = False, quagga_running = False, quagga_detected = [],
      quagga_calls = [], invoked = []\<rparr>"

text \<open>Calling a consumer callback \<open>onDetected(result)\<close>.\<close>

definition invoke :: "'cb \<Rightarrow> BarcodeDetectionResult \<Rightarrow> 'cb world \<Rightarrow> 'cb world" where
  "invoke onDetected result w = w\<lparr>invoked := invoked w @ [(onDetected, result)]\<rparr>"

text \<open>
  What happens inside the promise executor of \<open>initializeCamera\<close>. Building the
  configuration evaluates \<open>document.querySelector(`#${elementId}`)\<close>, which throws on
  an invalid selector before \<open>Quagga.init\<close> is called (\<open>SelectorThrows\<close>). Otherwise
  \<open>Quagga.init(config, callback)\<close> is called and calls back with no error, calls back
  with an error (permission denied, no camera, backend initialization error), or
  throws synchronously itself.
\<close>

datatype init_outcome =
  InitOk | InitErr js_error | InitThrows js_error | SelectorThrows js_error

text \<open>
  \<open>Quagga.start()\<close> runs the frame pipeline; \<open>Quagga.onDetected(handler)\<close> adds one
  subscription to the \<open>detected\<close> event; \<open>Quagga.stop()\<close> halts the pipeline and releases
  the camera; \<open>Quagga.offDetected()\<close> without an argument removes every subscription.
\<close>

definition Quagga_start :: "'cb world \<Rightarrow> 'cb world" where
  "Quagga_start w = w\<lparr>quagga_running := True, quagga_calls := quagga_calls w @ [QStart]\<rparr>"

definition Quagga_onDetected :: "'cb \<Rightarrow> 'cb world \<Rightarrow> 'cb world" where
  "Quagga_onDetected onDetected w =
     w\<lparr>quagga_detected := quagga_detected w @ [onDetected],
       quagga_calls := quagga_calls w @ [QOnDetected]\<rparr>"

definition Quagga_stop :: "'cb world \<Rightarrow> 'cb world" where
  "Quagga_stop w = w\<lparr>quagga_running := False, quagga_calls := quagga_calls w @ [QStop]\<rparr>"

definition Quagga_offDetected :: "'cb world \<Rightarrow> 'cb world" where
  "Quagga_offDetected w =
     w\<lparr>quagga_detected := [], quagga_calls := quagga_calls w @ [QOffDetected]\<rparr>"

section \<open>initializeCamera\<close>

text \<open>
  The callback handed to \<open>Quagga.init\<close>: with an error it rejects the promise and
  returns; without one it sets the flag and resolves the promise with \<open>true\<close>.
\<close>

fun init_callback :: "js_error option \<Rightarrow> 'cb world \<Rightarrow> bool promise \<times> 'cb world" where
  "init_callback (Some err) w = (Rejected err, w)"
| "init_callback None w = (Resolved True, w\<lparr>isInitialized := True\<rparr>)"

text \<open>
  \<open>new Promise((resolve, reject) => { Quagga.init(..., callback) })\<close>: the executor
  evaluates the configuration and then calls \<open>Quagga.init\<close>; an exception thrown inside
  the executor rejects the promise. The call is logged only when it is made.
\<close>

definition init_promise :: "string \<Rightarrow> init_outcome \<Rightarrow> 'cb world \<Rightarrow> bool promise \<times> 'cb world" where
  "init_promise elementId outcome w =
     (let w1 = w\<lparr>quagga_calls := quagga_calls w @ [QInit elementId]\<rparr> in
      case outcome of
        SelectorThrows e \<Rightarrow> (Rejected e, w)
      | InitThrows e \<Rightarrow> (Rejected e, w1)
      | InitErr err \<Rightarrow> init_callback (Some err) w1
      | InitOk \<Rightarrow> init_callback None w1)"

text \<open>The body of the \<open>try\<close> block of \<open>initializeCamera\<close>.\<close>

definition initializeCamera_try ::
  "string \<Rightarrow> init_outcome \<Rightarrow> 'cb world \<Rightarrow> bool completion \<times> 'cb world" where
  "initializeCamera_try elementId outcome w =
     (if isInitialized w then (Return True, w)
      else (case init_promise elementId outcome w of (p, w') \<Rightarrow> (ReturnPromise p, w')))"

text \<open>
  \<open>static async initializeCamera(elementId)\<close>: the \<open>try\<close> block, the handler
  \<open>catch (error) { return false }\<close>, and the promise the caller receives.
\<close>

definition initializeCamera ::
  "string \<Rightarrow> init_outcome \<Rightarrow> 'cb world \<Rightarrow> bool promise \<times> 'cb world" where
  "initializeCamera elementId outcome w =
     (case initializeCamera_try elementId outcome w of
        (c, w') \<Rightarrow> (async (try_catch c (\<lambda>error. Return False)), w'))"

text \<open>The number of device acquisitions: the calls of \<open>Quagga.init\<close> made so far.\<close>

fun is_QInit :: "quagga_call \<Rightarrow> bool" where
  "is_QInit (QInit elementId) = True"
| "is_QInit c = False"

definition acquisitions :: "'cb world \<Rightarrow> nat" where
  "acquisitions w = length (filter is_QInit (quagga_calls w))"

section \<open>startCameraDetection, stopCameraDetection, cleanup\<close>

text \<open>
  The result built by the handler registered with \<open>Quagga.onDetected\<close>:
  \<open>{success: true, barcode: data.codeResult.code, format: data.codeResult.format}\<close>.
\<close>

definition detected_result :: "codeResult \<Rightarrow> BarcodeDetectionResult" where
  "detected_result data =
     \<lparr>success = True, barcode = Some (code data), error = None, format = Some (cr_format data)\<rparr>"

text \<open>The result of the guard of \<open>startCameraDetection\<close>.\<close>

definition not_initialized_result :: BarcodeDetectionResult where
  "not_initialized_result =
     \<lparr>success = False, barcode = None, error = Some ''Camera not initialized'', format = None\<rparr>"

definition startCameraDetection :: "'cb \<Rightarrow> 'cb world \<Rightarrow> 'cb world" where
  "startCameraDetection onDetected w =
     (if \<not> isInitialized w then invoke onDetected not_initialized_result w
      else Quagga_onDetected onDetected (Quagga_start w))"

definition stopCameraDetection :: "'cb world \<Rightarrow> 'cb world" where
  "stopCameraDetection w =
     (if isInitialized w then Quagga_offDetected (Quagga_stop w) else w)"

definition cleanup :: "'cb world \<Rightarrow> 'cb world" where
  "cleanup w = (stopCameraDetection w)\<lparr>isInitialized := False\<rparr>"

text \<open>
  The Quagga frame pipeline publishing one \<open>detected\<close> event: every subscription is
  called with the decode, in registration order, and each calls its consumer callback
  with \<open>detected_result\<close>.
\<close>

definition publish_detected :: "codeResult \<Rightarrow> 'cb world \<Rightarrow> 'cb world" where
  "publish_detected data w =
     fold (\<lambda>onDetected. invoke onDetected (detected_result data)) (quagga_detected w) w"

text \<open>
  One frame of the live stream. While the pipeline runs, Quagga applies its own
  linear-barcode readers (\<open>decodeLive\<close>) to the frame and publishes \<open>detected\<close> only
  when they produced a \<open>codeResult\<close>; the service never sees the frame itself.
\<close>

definition Quagga_frame :: "('px \<Rightarrow> codeResult option) \<Rightarrow> 'px \<Rightarrow> 'cb world \<Rightarrow> 'cb world" where
  "Quagga_frame decodeLive frame w =
     (if quagga_running w
      then (case decodeLive frame of None \<Rightarrow> w | Some data \<Rightarrow> publish_detected data w)
      else w)"

section \<open>One-shot detection\<close>

text \<open>
  \<open>canvas.getContext('2d')\<close> gives a context, gives \<open>null\<close>, or throws.
  \<open>ctx.getImageData(0, 0, width, height)\<close> gives the pixel buffer or throws.
\<close>

datatype ctx_outcome = CtxOk | CtxNull | CtxThrows js_error

record 'px HTMLCanvasElement =
  getContext :: ctx_outcome
  getImageData :: "js_error + 'px"

text \<open>
  Loading the uploaded file into the image element: the \<open>load\<close> event fires (and drawing
  the image and reading the canvas gives the pixel buffer or throws), or the \<open>error\<close>
  event fires.
\<close>

datatype 'px image_load = Onload "js_error + 'px" | Onerror

text \<open>
  What \<open>Quagga.decodeSingle\<close> passes to its callback: \<open>undefined\<close>, or a result object
  with or without a \<open>codeResult\<close>.
\<close>

datatype quagga_result = ResultUndefined | Result "codeResult option"

text \<open>The decoder invocations of one detection, in the order made.\<close>

datatype 'px decoder_call = JsQR 'px | DecodeSingle 'px

definition failure :: "string \<Rightarrow> BarcodeDetectionResult" where
  "failure msg = \<lparr>success = False, barcode = None, error = Some msg, format = None\<rparr>"

definition qr_result :: "string \<Rightarrow> BarcodeDetectionResult" where
  "qr_result payload =
     \<lparr>success = True, barcode = Some payload, error = None, format = Some ''QR_CODE''\<rparr>"

text \<open>
  The test \<open>qrCode && qrCode.data\<close>: \<open>jsQR\<close> returned an object (not \<open>null\<close>) and its
  \<open>data\<close> is not the empty string.
\<close>

fun qr_found :: "string option \<Rightarrow> bool" where
  "qr_found None = False"
| "qr_found (Some payload) = (payload \<noteq> [])"

text \<open>
  The callback handed to \<open>Quagga.decodeSingle\<close> (the same in both functions): with
  \<open>result && result.codeResult\<close> it resolves with the code and format, else with the
  failure \<open>No barcode detected in image\<close>.
\<close>

fun decodeSingle_callback :: "quagga_result \<Rightarrow> BarcodeDetectionResult" where
  "decodeSingle_callback (Result (Some cr)) =
     \<lparr>success = True, barcode = Some (code cr), error = None, format = Some (cr_format cr)\<rparr>"
| "decodeSingle_callback r = failure ''No barcode detected in image''"

text \<open>
  The body of the \<open>try\<close> block of \<open>detectFromCanvas\<close>, with the decoders \<open>jsQR\<close>
  (\<open>null\<close> is \<open>None\<close>) and \<open>Quagga.decodeSingle\<close> (applied to the re-encoded canvas
  \<open>canvas.toDataURL()\<close>, the same pixels) as parameters.
\<close>

definition detectFromCanvas_try ::
  "('px \<Rightarrow> string option) \<Rightarrow> ('px \<Rightarrow> quagga_result) \<Rightarrow> 'px HTMLCanvasElement \<Rightarrow>
     BarcodeDetectionResult completion \<times> 'px decoder_call list" where
  "detectFromCanvas_try jsQR decodeSingle canvas =
     (case getContext canvas of
        CtxThrows e \<Rightarrow> (Throw e, [])
      | CtxNull \<Rightarrow> (Return (failure ''Could not get canvas context''), [])
      | CtxOk \<Rightarrow>
          (case getImageData canvas of
             Inl e \<Rightarrow> (Throw e, [])
           | Inr imageData \<Rightarrow>
               (case jsQR imageData of
                  Some payload \<Rightarrow>
                    if qr_found (Some payload)
                    then (Return (qr_result payload), [JsQR imageData])
                    else (ReturnPromise (Resolved (decodeSingle_callback (decodeSingle imageData))),
                          [JsQR imageData, DecodeSingle imageData])
                | None \<Rightarrow>
                    (ReturnPromise (Resolved (decodeSingle_callback (decodeSingle imageData))),
                     [JsQR imageData, DecodeSingle imageData]))))"

definition detectFromCanvas ::
  "('px \<Rightarrow> string option) \<Rightarrow> ('px \<Rightarrow> quagga_result) \<Rightarrow> 'px HTMLCanvasElement \<Rightarrow>
     BarcodeDetectionResult promise \<times> 'px decoder_call list" where
  "detectFromCanvas jsQR decodeSingle canvas =
     (case detectFromCanvas_try jsQR decodeSingle canvas of
        (c, calls) \<Rightarrow>
          (async (try_catch c (\<lambda>error. Return (failure ''Failed to process canvas''))), calls))"

text \<open>
  The \<open>img.onload\<close> handler of \<open>detectFromImageFile\<close>. It runs as an event handler,
  after the function has returned its promise: an exception in it settles nothing.
\<close>

definition img_onload ::
  "('px \<Rightarrow> string option) \<Rightarrow> ('px \<Rightarrow> quagga_result) \<Rightarrow> js_error + 'px \<Rightarrow>
     BarcodeDetectionResult promise \<times> 'px decoder_call list" where
  "img_onload jsQR decodeSingle drawn =
     (case drawn of
        Inl e \<Rightarrow> (Pending, [])
      | Inr imageData \<Rightarrow>
          (case jsQR imageData of
             Some payload \<Rightarrow>
               if qr_found (Some payload)
               then (Resolved (qr_result payload), [JsQR imageData])
               else (Resolved (decodeSingle_callback (decodeSingle imageData)),
                     [JsQR imageData, DecodeSingle imageData])
           | None \<Rightarrow>
               (Resolved (decodeSingle_callback (decodeSingle imageData)),
                [JsQR imageData, DecodeSingle imageData])))"

text \<open>The \<open>img.onerror\<close> handler.\<close>

definition img_onerror :: "BarcodeDetectionResult promise \<times> 'px decoder_call list" where
  "img_onerror = (Resolved (failure ''Could not load image''), [])"

text \<open>
  The body of the \<open>try\<close> block of \<open>detectFromImageFile\<close>: the context of a fresh canvas,
  then the promise settled by whichever of the two image events fires.
\<close>

definition detectFromImageFile_try ::
  "('px \<Rightarrow> string option) \<Rightarrow> ('px \<Rightarrow> quagga_result) \<Rightarrow> ctx_outcome \<Rightarrow> 'px image_load \<Rightarrow>
     BarcodeDetectionResult completion \<times> 'px decoder_call list" where
  "detectFromImageFile_try jsQR decodeSingle ctx file =
     (case ctx of
        CtxThrows e \<Rightarrow> (Throw e, [])
      | CtxNull \<Rightarrow> (Return (failure ''Could not get canvas context''), [])
      | CtxOk \<Rightarrow>
          (case (case file of
                   Onload drawn \<Rightarrow> img_onload jsQR decodeSingle drawn
                 | Onerror \<Rightarrow> img_onerror) of
             (p, calls) \<Rightarrow> (ReturnPromise p, calls)))"

definition detectFromImageFile ::
  "('px \<Rightarrow> string option) \<Rightarrow> ('px \<Rightarrow> quagga_result) \<Rightarrow> ctx_outcome \<Rightarrow> 'px image_load \<Rightarrow>
     BarcodeDetectionResult promise \<times> 'px decoder_call list" where
  "detectFromImageFile jsQR decodeSingle ctx file =
     (case detectFromImageFile_try jsQR decodeSingle ctx file of
        (c, calls) \<Rightarrow>
          (async (try_catch c (\<lambda>error. Return (failure ''Failed to process image''))), calls))"

section \<open>Sequences of operations\<close>

text \<open>
  One operation on the service, or one frame passing through the running pipeline.
  Each operation runs to completion before the next one starts.
\<close>

datatype ('cb, 'px) action =
    InitializeCamera string init_outcome
  | StartCameraDetection 'cb
  | StopCameraDetection
  | Cleanup
  | Frame 'px

fun step :: "('px \<Rightarrow> codeResult option) \<Rightarrow> ('cb, 'px) action \<Rightarrow> 'cb world \<Rightarrow> 'cb world" where
  "step decodeLive (InitializeCamera elementId outcome) w = snd (initializeCamera elementId outcome w)"
| "step decodeLive (StartCameraDetection onDetected) w = startCameraDetection onDetected w"
| "step decodeLive StopCameraDetection w = stopCameraDetection w"
| "step decodeLive Cleanup w = cleanup w"
| "step decodeLive (Frame frame) w = Quagga_frame decodeLive frame w"

text \<open>
  A world in which the service is not initialized has no running pipeline and no
  subscription. Every world the operations reach from \<open>initial_world\<close> is of this kind.
\<close>

definition consistent :: "'cb world \<Rightarrow> bool" where
  "consistent w = (isInitialized w \<or> (\<not> quagga_running w \<and> quagga_detected w = []))"

text \<open>The same world with an earlier history in front of its two logs.\<close>

definition with_history ::
  "quagga_call list \<Rightarrow> ('cb \<times> BarcodeDetectionResult) list \<Rightarrow> 'cb world \<Rightarrow> 'cb world" where
  "with_history calls invocations w =
     w\<lparr>quagga_calls := calls @ quagga_calls w, invoked := invocations @ invoked w\<rparr>"

section \<open>The fallback chain as the specification words it\<close>


section \<open>Sample inputs\<close>

text \<open>
  Frames are numbered: frame 0 shows a QR code with the payload \<open>ITEM-42\<close>, frame 1 an
  EAN-13 barcode, every other frame nothing that a decoder finds.
\<close>

definition sample_jsQR :: "nat \<Rightarrow> string option" where
  "sample_jsQR = [0 \<mapsto> ''ITEM-42'']"

definition sample_linear :: "nat \<Rightarrow> codeResult option" where
  "sample_linear = [1 \<mapsto> CodeResult ''4006381333931'' ''ean_13'']"

definition sample_decodeSingle :: "nat \<Rightarrow> quagga_result" where
  "sample_decodeSingle px = Result (sample_linear px)"

text \<open>The service after one successful \<open>initializeCamera\<close>; consumer callbacks are numbered.\<close>

definition sample_ready :: "nat world" where
  "sample_ready = snd (initializeCamera ''camera-container'' InitOk initial_world)"

definition permission_denied :: js_error where
  "permission_denied = JsError ''NotAllowedError: Permission denied''"

section \<open>Basic facts\<close>

lemma initializeCamera_initialized:
  "isInitialized w \<Longrightarrow> initializeCamera elementId outcome w = (Resolved True, w)"
  by (simp add: initializeCamera_def initializeCamera_try_def)

lemma initializeCamera_flag:
  "isInitialized (snd (initializeCamera elementId outcome w)) =
     (fst (initializeCamera elementId outcome w) = Resolved True)"
  by (cases outcome)
     (simp_all add: initializeCamera_def initializeCamera_try_def init_promise_def)

lemma initializeCamera_never_false:
  "fst (initializeCamera elementId outcome w) \<noteq> Resolved False"
  by (cases outcome)
     (simp_all add: initializeCamera_def initializeCamera_try_def init_promise_def)

lemma initializeCamera_Ok:
  "\<not> isInitialized w \<Longrightarrow>
   initializeCamera elementId InitOk w =
     (Resolved True, w\<lparr>quagga_calls := quagga_calls w @ [QInit elementId], isInitialized := True\<rparr>)"
  by (simp add: initializeCamera_def initializeCamera_try_def init_promise_def)

lemma initializeCamera_Err:
  "\<not> isInitialized w \<Longrightarrow>
   initializeCamera elementId (InitErr err) w =
     (Rejected err, w\<lparr>quagga_calls := quagga_calls w @ [QInit elementId]\<rparr>)"
  by (simp add: initializeCamera_def initializeCamera_try_def init_promise_def)

lemma initializeCamera_Throws:
  "\<not> isInitialized w \<Longrightarrow>
   initializeCamera elementId (InitThrows e) w =
     (Rejected e, w\<lparr>quagga_calls := quagga_calls w @ [QInit elementId]\<rparr>)"
  by (simp add: initializeCamera_def initializeCamera_try_def init_promise_def)

lemma initializeCamera_SelectorThrows:
  "\<not> isInitialized w \<Longrightarrow>
   initializeCamera elementId (SelectorThrows e) w = (Rejected e, w)"
  by (simp add: initializeCamera_def initializeCamera_try_def init_promise_def)

lemma cleanup_flag: "\<not> isInitialized (cleanup w)"
  by (simp add: cleanup_def)

lemma startCameraDetection_guard:
  "\<not> isInitialized w \<Longrightarrow>
   startCameraDetection onDetected w =
     w\<lparr>invoked := invoked w @ [(onDetected, not_initialized_result)]\<rparr>"
  by (simp add: startCameraDetection_def invoke_def)

lemma startCameraDetection_started:
  "isInitialized w \<Longrightarrow>
   startCameraDetection onDetected w =
     w\<lparr>quagga_running := True, quagga_detected := quagga_detected w @ [onDetected],
       quagga_calls := quagga_calls w @ [QStart, QOnDetected]\<rparr>"
  by (simp add: startCameraDetection_def Quagga_start_def Quagga_onDetected_def)

lemma stopCameraDetection_stopped:
  "isInitialized w \<Longrightarrow>
   stopCameraDetection w =
     w\<lparr>quagga_running := False, quagga_detected := [],
       quagga_calls := quagga_calls w @ [QStop, QOffDetected]\<rparr>"
  by (simp add: stopCameraDetection_def Quagga_stop_def Quagga_offDetected_def)

lemma fold_invoke:
  "fold (\<lambda>onDetected. invoke onDetected r) cbs w =
     w\<lparr>invoked := invoked w @ map (\<lambda>onDetected. (onDetected, r)) cbs\<rparr>"
  by (induction cbs arbitrary: w) (simp_all add: invoke_def)

lemma publish_detected_eq:
  "publish_detected data w =
     w\<lparr>invoked := invoked w @
         map (\<lambda>onDetected. (onDetected, detected_result data)) (quagga_detected w)\<rparr>"
  by (simp add: publish_detected_def fold_invoke)

lemma Quagga_frame_eq:
  "Quagga_frame decodeLive frame w =
     w\<lparr>invoked := invoked w @
         (if quagga_running w
          then (case decodeLive frame of
                  None \<Rightarrow> []
                | Some data \<Rightarrow> map (\<lambda>onDetected. (onDetected, detected_result data)) (quagga_detected w))
          else [])\<rparr>"
  by (simp add: Quagga_frame_def publish_detected_eq split: option.split)

lemma sample_ready_eq:
  "sample_ready =
     \<lparr>isInitialized = True, quagga_running = False, quagga_detected = [],
      quagga_calls = [QInit ''camera-container''], invoked = []\<rparr>"
  by (simp add: sample_ready_def initializeCamera_Ok initial_world_def)

section \<open>Initialization when the backend reports an error\<close>

text \<open>
  Claim C1: whenever the camera backend reports an error, \<open>initializeCamera\<close> resolves
  to \<open>false\<close> and nothing is rejected past the caller. The code does not do this: the
  promise around \<open>Quagga.init\<close> is returned from the \<open>try\<close> block without \<open>await\<close>, so
  its rejection bypasses \<open>catch (error) { return false }\<close> and reaches the caller. With
  camera permission denied on a fresh service the caller's promise is rejected with
  the backend's error, and it is not resolved with \<open>false\<close>.
\<close>

theorem initializeCamera_backend_error_rejects:
  "fst (initializeCamera ''camera-container'' (InitErr permission_denied)
          (initial_world :: nat world)) = Rejected permission_denied
   \<and> fst (initializeCamera ''camera-container'' (InitErr permission_denied)
          (initial_world :: nat world)) \<noteq> Resolved False"
  by (simp add: initializeCamera_def initializeCamera_try_def init_promise_def initial_world_def)

section \<open>Repeated starts of the stream\<close>

text \<open>
  Claim C2, as stated: a second \<open>startCameraDetection\<close> while already streaming does not
  stack a duplicate registration, and one result is delivered per detection event.
  It fails: after two starts with the same callback two subscriptions exist, and one
  detection event (frame 1, an EAN-13 code) invokes the callback twice.
\<close>

theorem startCameraDetection_twice_counterexample:
  "quagga_detected (startCameraDetection 7 (startCameraDetection 7 sample_ready)) = [7, 7]
   \<and> \<not> length (quagga_detected (startCameraDetection 7 (startCameraDetection 7 sample_ready))) \<le> 1
   \<and> invoked (Quagga_frame sample_linear 1
        (startCameraDetection 7 (startCameraDetection 7 sample_ready)))
     = [(7, detected_result (CodeResult ''4006381333931'' ''ean_13'')),
        (7, detected_result (CodeResult ''4006381333931'' ''ean_13''))]"
  by (simp add: sample_ready_eq startCameraDetection_started Quagga_frame_eq sample_linear_def)

text \<open>
  Claim C2, amended: every \<open>startCameraDetection\<close> made while the service is initialized
  adds exactly one subscription to those already present (the service keeps no
  Streaming state and has no guard). A start after \<open>stopCameraDetection\<close> leaves exactly
  one subscription, and a start with no subscription outstanding delivers exactly one
  result per detection event and none for a frame without a decode.
\<close>

theorem startCameraDetection_registers_one_more:
  "isInitialized w \<Longrightarrow>
     quagga_detected (startCameraDetection onDetected w) = quagga_detected w @ [onDetected]
   \<and> quagga_detected (startCameraDetection onDetected (stopCameraDetection w)) = [onDetected]
   \<and> (quagga_detected w = [] \<longrightarrow>
        invoked (Quagga_frame decodeLive frame (startCameraDetection onDetected w)) =
          invoked w @ (case decodeLive frame of
                         None \<Rightarrow> []
                       | Some data \<Rightarrow> [(onDetected, detected_result data)]))"
  by (simp add: startCameraDetection_started stopCameraDetection_stopped Quagga_frame_eq
      split: option.split)

theorem startCameraDetection_registers_one_more_witness:
  "isInitialized sample_ready
   \<and> quagga_detected (startCameraDetection 7 sample_ready) = [7]
   \<and> quagga_detected (startCameraDetection 8 (startCameraDetection 7 sample_ready)) = [7, 8]
   \<and> invoked (Quagga_frame sample_linear 1 (startCameraDetection 7 sample_ready)) =
       [(7, detected_result (CodeResult ''4006381333931'' ''ean_13''))]"
proof -
  have r: "isInitialized sample_ready" "quagga_detected sample_ready = []" "invoked sample_ready = []"
    by (simp_all add: sample_ready_eq)
  have r2: "isInitialized (startCameraDetection 7 sample_ready)"
    using r by (simp add: startCameraDetection_started)
  show ?thesis
    using startCameraDetection_registers_one_more [OF r(1), of 7 sample_linear 1]
      startCameraDetection_registers_one_more [OF r2, of 8 sample_linear 1] r
    by (simp add: sample_linear_def)
qed

section \<open>Decoding during streaming\<close>




section \<open>One-shot detection: the fallback chain\<close>

text \<open>
  Claim C4: when \<open>jsQR\<close> yields a non-empty payload on the pixel buffer, both
  \<open>detectFromCanvas\<close> and \<open>detectFromImageFile\<close> resolve with
  \<open>{success: true, barcode: payload, format: "QR_CODE"}\<close>, and the only decoder invoked
  is \<open>jsQR\<close>: \<open>Quagga.decodeSingle\<close> is not called.
\<close>

theorem matrix_code_short_circuit:
  "jsQR px = Some payload \<Longrightarrow> payload \<noteq> [] \<Longrightarrow>
     detectFromCanvas jsQR decodeSingle \<lparr>getContext = CtxOk, getImageData = Inr px\<rparr> =
       (Resolved \<lparr>success = True, barcode = Some payload, error = None, format = Some ''QR_CODE''\<rparr>,
        [JsQR px])
   \<and> detectFromImageFile jsQR decodeSingle CtxOk (Onload (Inr px)) =
       (Resolved \<lparr>success = True, barcode = Some payload, error = None, format = Some ''QR_CODE''\<rparr>,
        [JsQR px])"
  by (simp add: detectFromCanvas_def detectFromCanvas_try_def detectFromImageFile_def
      detectFromImageFile_try_def img_onload_def qr_result_def)

theorem matrix_code_short_circuit_witness:
  "sample_jsQR 0 = Some ''ITEM-42'' \<and> ''ITEM-42'' \<noteq> []
   \<and> detectFromCanvas sample_jsQR sample_decodeSingle \<lparr>getContext = CtxOk, getImageData = Inr 0\<rparr> =
       (Resolved \<lparr>success = True, barcode = Some ''ITEM-42'', error = None, format = Some ''QR_CODE''\<rparr>,
        [JsQR 0])
   \<and> detectFromImageFile sample_jsQR sample_decodeSingle CtxOk (Onload (Inr 0)) =
       (Resolved \<lparr>success = True, barcode = Some ''ITEM-42'', error = None, format = Some ''QR_CODE''\<rparr>,
        [JsQR 0])"
proof -
  have h: "sample_jsQR 0 = Some ''ITEM-42''" "''ITEM-42'' \<noteq> []"
    by (simp_all add: sample_jsQR_def)
  show ?thesis
    using matrix_code_short_circuit [of sample_jsQR 0 "''ITEM-42''" sample_decodeSingle] h by simp
qed

text \<open>
  Claim C6: when \<open>jsQR\<close> finds nothing on the pixel buffer (\<open>null\<close>, or an empty payload)
  and \<open>Quagga.decodeSingle\<close> calls back without a \<open>codeResult\<close>, both one-shot functions
  resolve with exactly \<open>{success: false, error: "No barcode detected in image"}\<close>, after
  trying \<open>jsQR\<close> first and \<open>Quagga.decodeSingle\<close> second.
\<close>

theorem no_barcode_detected:
  "\<not> qr_found (jsQR px) \<Longrightarrow>
   decodeSingle px = ResultUndefined \<or> decodeSingle px = Result None \<Longrightarrow>
     detectFromCanvas jsQR decodeSingle \<lparr>getContext = CtxOk, getImageData = Inr px\<rparr> =
       (Resolved \<lparr>success = False, barcode = None, error = Some ''No barcode detected in image'',
                  format = None\<rparr>,
        [JsQR px, DecodeSingle px])
   \<and> detectFromImageFile jsQR decodeSingle CtxOk (Onload (Inr px)) =
       (Resolved \<lparr>success = False, barcode = None, error = Some ''No barcode detected in image'',
                  format = None\<rparr>,
        [JsQR px, DecodeSingle px])"
  by (cases "jsQR px")
     (auto simp add: detectFromCanvas_def detectFromCanvas_try_def detectFromImageFile_def
        detectFromImageFile_try_def img_onload_def failure_def)

theorem no_barcode_detected_witness:
  "\<not> qr_found (sample_jsQR 2)
   \<and> (sample_decodeSingle 2 = ResultUndefined \<or> sample_decodeSingle 2 = Result None)
   \<and> detectFromCanvas sample_jsQR sample_decodeSingle \<lparr>getContext = CtxOk, getImageData = Inr 2\<rparr> =
       (Resolved \<lparr>success = False, barcode = None, error = Some ''No barcode detected in image'',
                  format = None\<rparr>,
        [JsQR 2, DecodeSingle 2])
   \<and> detectFromImageFile sample_jsQR sample_decodeSingle CtxOk (Onload (Inr 2)) =
       (Resolved \<lparr>success = False, barcode = None, error = Some ''No barcode detected in image'',
                  format = None\<rparr>,
        [JsQR 2, DecodeSingle 2])"
proof -
  have h1: "\<not> qr_found (sample_jsQR 2)"
    by (simp add: sample_jsQR_def)
  have h2: "sample_decodeSingle 2 = ResultUndefined \<or> sample_decodeSingle 2 = Result None"
    by (simp add: sample_decodeSingle_def sample_linear_def)
  show ?thesis
    using no_barcode_detected [of sample_jsQR 2 sample_decodeSingle] h1 h2 by simp
qed

lemma initializeCamera_invoked:
  "invoked (snd (initializeCamera elementId outcome w)) = invoked w"
  by (cases outcome)
     (simp_all add: initializeCamera_def initializeCamera_try_def init_promise_def)

lemma cleanup_invoked: "invoked (cleanup w) = invoked w"
  by (simp add: cleanup_def stopCameraDetection_def Quagga_stop_def Quagga_offDetected_def)

section \<open>Starting the stream on a service that is not initialized\<close>

text \<open>
  Claim C5: \<open>startCameraDetection\<close> on a service that is not initialized (before any
  \<open>initializeCamera\<close>, after an \<open>initializeCamera\<close> that did not resolve \<open>true\<close>, or after
  \<open>cleanup\<close>) invokes the supplied callback exactly once, with
  \<open>{success: false, error: "Camera not initialized"}\<close>, and changes nothing else:
  no call reaches Quagga and the pipeline is not started. The function has no
  exceptional exit.
\<close>

theorem startCameraDetection_not_initialized:
  "(\<not> isInitialized w \<longrightarrow>
      startCameraDetection onDetected w =
        w\<lparr>invoked := invoked w @
            [(onDetected, \<lparr>success = False, barcode = None,
                           error = Some ''Camera not initialized'', format = None\<rparr>)]\<rparr>)
   \<and> startCameraDetection onDetected initial_world =
        initial_world\<lparr>invoked :=
            [(onDetected, \<lparr>success = False, barcode = None,
                           error = Some ''Camera not initialized'', format = None\<rparr>)]\<rparr>
   \<and> (fst (initializeCamera elementId outcome w) \<noteq> Resolved True \<longrightarrow>
        startCameraDetection onDetected (snd (initializeCamera elementId outcome w)) =
          (snd (initializeCamera elementId outcome w))\<lparr>invoked := invoked w @
            [(onDetected, \<lparr>success = False, barcode = None,
                           error = Some ''Camera not initialized'', format = None\<rparr>)]\<rparr>)
   \<and> startCameraDetection onDetected (cleanup w) =
        (cleanup w)\<lparr>invoked := invoked w @
            [(onDetected, \<lparr>success = False, barcode = None,
                           error = Some ''Camera not initialized'', format = None\<rparr>)]\<rparr>"
proof -
  have a: "\<not> isInitialized (initial_world :: 'a world)" "invoked (initial_world :: 'a world) = []"
    by (simp_all add: initial_world_def)
  have b: "fst (initializeCamera elementId outcome w) \<noteq> Resolved True \<Longrightarrow>
      \<not> isInitialized (snd (initializeCamera elementId outcome w))"
    by (simp add: initializeCamera_flag)
  show ?thesis
    using startCameraDetection_guard [of w onDetected]
      startCameraDetection_guard [OF a(1), of onDetected]
      startCameraDetection_guard [OF b, of onDetected]
      startCameraDetection_guard [OF cleanup_flag, of onDetected w]
    by (simp add: not_initialized_result_def a(2) initializeCamera_invoked cleanup_invoked)
qed

theorem startCameraDetection_not_initialized_witness:
  "\<not> isInitialized (initial_world :: nat world)
   \<and> startCameraDetection 7 (initial_world :: nat world) =
       \<lparr>isInitialized = False, quagga_running = False, quagga_detected = [], quagga_calls = [],
        invoked = [(7, \<lparr>success = False, barcode = None,
                        error = Some ''Camera not initialized'', format = None\<rparr>)]\<rparr>
   \<and> fst (initializeCamera ''camera-container'' (InitErr permission_denied)
        (initial_world :: nat world)) \<noteq> Resolved True
   \<and> startCameraDetection 7
        (snd (initializeCamera ''camera-container'' (InitErr permission_denied)
           (initial_world :: nat world))) =
       \<lparr>isInitialized = False, quagga_running = False, quagga_detected = [],
        quagga_calls = [QInit ''camera-container''],
        invoked = [(7, \<lparr>success = False, barcode = None,
                        error = Some ''Camera not initialized'', format = None\<rparr>)]\<rparr>
   \<and> startCameraDetection 7 (cleanup (startCameraDetection 8 sample_ready)) =
       \<lparr>isInitialized = False, quagga_running = False, quagga_detected = [],
        quagga_calls = [QInit ''camera-container'', QStart, QOnDetected, QStop, QOffDetected],
        invoked = [(7, \<lparr>success = False, barcode = None,
                        error = Some ''Camera not initialized'', format = None\<rparr>)]\<rparr>"
proof -
  have a: "\<not> isInitialized (initial_world :: nat world)"
    by (simp add: initial_world_def)
  have b: "initializeCamera ''camera-container'' (InitErr permission_denied) (initial_world :: nat world)
      = (Rejected permission_denied, initial_world\<lparr>quagga_calls := [QInit ''camera-container'']\<rparr>)"
    using initializeCamera_Err [OF a] by (simp add: initial_world_def)
  have c: "cleanup (startCameraDetection 8 sample_ready) =
      \<lparr>isInitialized = False, quagga_running = False, quagga_detected = [],
        quagga_calls = [QInit ''camera-container'', QStart, QOnDetected, QStop, QOffDetected],
        invoked = []\<rparr>"
    by (simp add: sample_ready_eq startCameraDetection_started cleanup_def
        stopCameraDetection_stopped)
  show ?thesis
    using startCameraDetection_not_initialized
        [of "initial_world :: nat world" 7 "''camera-container''" "InitErr permission_denied"]
      startCameraDetection_not_initialized
        [of "startCameraDetection 8 sample_ready" 7 "''camera-container''" InitOk]
    by (simp add: b c) (simp add: initial_world_def sample_ready_eq startCameraDetection_started)
qed

section \<open>Idempotent initialization\<close>

text \<open>
  Claim C7: on an initialized service \<open>initializeCamera\<close> resolves \<open>true\<close> at once and
  leaves everything as it was (no call of \<open>Quagga.init\<close>). Hence, when one call has
  resolved \<open>true\<close>, the next call resolves \<open>true\<close> too, and the two calls together
  acquire the device at most once.
\<close>

theorem initializeCamera_idempotent:
  "(isInitialized w \<longrightarrow> initializeCamera elementId outcome w = (Resolved True, w))
   \<and> (fst (initializeCamera elementId1 outcome1 w) = Resolved True \<longrightarrow>
        initializeCamera elementId outcome (snd (initializeCamera elementId1 outcome1 w)) =
          (Resolved True, snd (initializeCamera elementId1 outcome1 w))
        \<and> acquisitions (snd (initializeCamera elementId outcome
              (snd (initializeCamera elementId1 outcome1 w)))) \<le> acquisitions w + 1)"
proof -
  have acq: "acquisitions (snd (initializeCamera elementId1 outcome1 w)) \<le> acquisitions w + 1"
    by (cases outcome1)
       (simp_all add: initializeCamera_def initializeCamera_try_def init_promise_def
          acquisitions_def)
  show ?thesis
    using acq by (simp add: initializeCamera_initialized initializeCamera_flag)
qed

theorem initializeCamera_idempotent_witness:
  "isInitialized sample_ready
   \<and> initializeCamera ''camera-container'' (InitErr permission_denied) sample_ready =
       (Resolved True, sample_ready)
   \<and> fst (initializeCamera ''camera-container'' InitOk (initial_world :: nat world)) = Resolved True
   \<and> initializeCamera ''camera-container'' InitOk
        (snd (initializeCamera ''camera-container'' InitOk (initial_world :: nat world))) =
       (Resolved True, sample_ready)
   \<and> acquisitions (snd (initializeCamera ''camera-container'' InitOk
        (snd (initializeCamera ''camera-container'' InitOk (initial_world :: nat world))))) = 1"
proof -
  have a: "isInitialized sample_ready"
    by (simp add: sample_ready_eq)
  have b: "initializeCamera ''camera-container'' InitOk (initial_world :: nat world) =
      (Resolved True, sample_ready)"
    by (simp add: sample_ready_eq initializeCamera_Ok initial_world_def)
  have c: "acquisitions sample_ready = 1"
    by (simp add: sample_ready_eq acquisitions_def)
  show ?thesis
    using initializeCamera_idempotent
        [of sample_ready "''camera-container''" "InitErr permission_denied"
           "''camera-container''" InitOk]
      initializeCamera_idempotent
        [of "initial_world :: nat world" "''camera-container''" InitOk "''camera-container''" InitOk]
      a b c
    by simp
qed

section \<open>One-shot detection: failures before the decoders run\<close>

text \<open>
  The failures that both one-shot functions convert into a resolved failure result:
  a \<open>null\<close> context gives \<open>Could not get canvas context\<close>; an exception from
  \<open>getContext\<close>, or from reading the canvas in \<open>detectFromCanvas\<close>, is caught by the
  function's \<open>catch\<close> block and gives \<open>Failed to process canvas\<close> or
  \<open>Failed to process image\<close>; an image that does not load gives
  \<open>Could not load image\<close>. No decoder has been invoked in any of these cases.
\<close>

lemma detection_failures_resolve:
  "(getContext canvas = CtxNull \<longrightarrow>
      detectFromCanvas jsQR decodeSingle canvas =
        (Resolved \<lparr>success = False, barcode = None,
                   error = Some ''Could not get canvas context'', format = None\<rparr>, []))
   \<and> (getContext canvas = CtxThrows e \<or> (getContext canvas = CtxOk \<and> getImageData canvas = Inl e) \<longrightarrow>
      detectFromCanvas jsQR decodeSingle canvas =
        (Resolved \<lparr>success = False, barcode = None,
                   error = Some ''Failed to process canvas'', format = None\<rparr>, []))
   \<and> detectFromImageFile jsQR decodeSingle CtxNull file =
        (Resolved \<lparr>success = False, barcode = None,
                   error = Some ''Could not get canvas context'', format = None\<rparr>, [])
   \<and> detectFromImageFile jsQR decodeSingle (CtxThrows e) file =
        (Resolved \<lparr>success = False, barcode = None,
                   error = Some ''Failed to process image'', format = None\<rparr>, [])
   \<and> detectFromImageFile jsQR decodeSingle CtxOk Onerror =
        (Resolved \<lparr>success = False, barcode = None,
                   error = Some ''Could not load image'', format = None\<rparr>, [])"
  by (auto simp add: detectFromCanvas_def detectFromCanvas_try_def detectFromImageFile_def
      detectFromImageFile_try_def img_onerror_def failure_def)

lemma detection_failures_resolve_example:
  "detectFromCanvas sample_jsQR sample_decodeSingle
       \<lparr>getContext = CtxNull, getImageData = Inr 0\<rparr> =
     (Resolved \<lparr>success = False, barcode = None,
                error = Some ''Could not get canvas context'', format = None\<rparr>, [])
   \<and> detectFromCanvas sample_jsQR sample_decodeSingle
       \<lparr>getContext = CtxThrows (JsError ''InvalidStateError''), getImageData = Inr 0\<rparr> =
     (Resolved \<lparr>success = False, barcode = None,
                error = Some ''Failed to process canvas'', format = None\<rparr>, [])
   \<and> detectFromCanvas sample_jsQR sample_decodeSingle
       \<lparr>getContext = CtxOk, getImageData = Inl (JsError ''SecurityError'')\<rparr> =
     (Resolved \<lparr>success = False, barcode = None,
                error = Some ''Failed to process canvas'', format = None\<rparr>, [])
   \<and> detectFromImageFile sample_jsQR sample_decodeSingle CtxOk Onerror =
     (Resolved \<lparr>success = False, barcode = None,
                error = Some ''Could not load image'', format = None\<rparr>, [])"
  using detection_failures_resolve
      [of "\<lparr>getContext = CtxNull, getImageData = Inr 0\<rparr>" sample_jsQR sample_decodeSingle]
    detection_failures_resolve
      [of "\<lparr>getContext = CtxThrows (JsError ''InvalidStateError''), getImageData = Inr 0\<rparr>"
          sample_jsQR sample_decodeSingle "JsError ''InvalidStateError''"]
    detection_failures_resolve
      [of "\<lparr>getContext = CtxOk, getImageData = Inl (JsError ''SecurityError'')\<rparr>"
          sample_jsQR sample_decodeSingle "JsError ''SecurityError''"]
  by simp

lemma detectFromImageFile_load_handler_throws:
  "detectFromImageFile jsQR decodeSingle CtxOk (Onload (Inl e)) = (Pending, [])"
  by (simp add: detectFromImageFile_def detectFromImageFile_try_def img_onload_def)

text \<open>
  Claim C8: every exception or failure while acquiring the 2D context or decoding the
  image source is caught and converted into a \<open>success: false\<close> result, so the
  detection always resolves. The code does not do this in \<open>detectFromImageFile\<close>:
  drawing the loaded image and reading its pixels happen inside the \<open>img.onload\<close>
  handler, after the \<open>try\<close> block has been left, and the promise has no \<open>reject\<close>.
  When reading the pixels of a loaded image throws (\<open>getImageData\<close> on an image of
  width zero raises \<open>IndexSizeError\<close>), the promise is never settled and no decoder
  runs, whereas \<open>detectFromCanvas\<close> converts the same exception into
  \<open>Failed to process canvas\<close>.
\<close>

theorem detectFromImageFile_unreadable_image_pending:
  "detectFromImageFile sample_jsQR sample_decodeSingle CtxOk
       (Onload (Inl (JsError ''IndexSizeError''))) = (Pending, [])
   \<and> detectFromCanvas sample_jsQR sample_decodeSingle
       \<lparr>getContext = CtxOk, getImageData = Inl (JsError ''IndexSizeError'')\<rparr> =
     (Resolved \<lparr>success = False, barcode = None,
                error = Some ''Failed to process canvas'', format = None\<rparr>, [])"
  by (simp add: detectFromImageFile_def detectFromImageFile_try_def img_onload_def
      detectFromCanvas_def detectFromCanvas_try_def failure_def)

lemma fold_Quagga_frame:
  "fold (Quagga_frame decodeLive) frames w =
     w\<lparr>invoked := invoked w @
         (if quagga_running w
          then concat (map (\<lambda>data. map (\<lambda>onDetected. (onDetected, detected_result data))
                                      (quagga_detected w))
                           (List.map_filter decodeLive frames))
          else [])\<rparr>"
proof (induction frames arbitrary: w)
  case Nil
  then show ?case by simp
next
  case (Cons frame frames)
  let ?w1 = "Quagga_frame decodeLive frame w"
  have "fold (Quagga_frame decodeLive) (frame # frames) w = fold (Quagga_frame decodeLive) frames ?w1"
    by simp
  also have "\<dots> =
      ?w1\<lparr>invoked := invoked ?w1 @
         (if quagga_running ?w1
          then concat (map (\<lambda>data. map (\<lambda>onDetected. (onDetected, detected_result data))
                                      (quagga_detected ?w1))
                           (List.map_filter decodeLive frames))
          else [])\<rparr>"
    by (rule Cons.IH)
  also have "\<dots> =
      w\<lparr>invoked := invoked w @
         (if quagga_running w
          then concat (map (\<lambda>data. map (\<lambda>onDetected. (onDetected, detected_result data))
                                      (quagga_detected w))
                           (List.map_filter decodeLive (frame # frames)))
          else [])\<rparr>"
    by (cases "decodeLive frame") (simp_all add: Quagga_frame_eq)
  finally show ?case .
qed

section \<open>Results delivered while streaming\<close>

text \<open>
  Claim C10: after \<open>startCameraDetection\<close> on an initialized service, the callback
  invocations made by any sequence of frames are exactly one per registered callback
  for each frame with a decode, each with \<open>success: true\<close> and both \<open>barcode\<close> and
  \<open>format\<close> present; no invocation carries \<open>success: false\<close>, and a frame without a
  decode changes nothing (no callback is invoked).
\<close>

theorem streaming_results_are_successes:
  "isInitialized w \<Longrightarrow>
     invoked (fold (Quagga_frame decodeLive) frames (startCameraDetection onDetected w)) =
       invoked w @
         concat (map (\<lambda>data. map (\<lambda>cb. (cb, detected_result data)) (quagga_detected w @ [onDetected]))
                     (List.map_filter decodeLive frames))
   \<and> (\<forall>(cb, r) \<in> set (drop (length (invoked w))
          (invoked (fold (Quagga_frame decodeLive) frames (startCameraDetection onDetected w)))).
        success r \<and> barcode r \<noteq> None \<and> format r \<noteq> None \<and> error r = None)
   \<and> success (detected_result data) \<and> barcode (detected_result data) = Some (code data)
   \<and> format (detected_result data) = Some (cr_format data) \<and> error (detected_result data) = None
   \<and> (decodeLive frame = None \<longrightarrow>
        Quagga_frame decodeLive frame (startCameraDetection onDetected w) =
          startCameraDetection onDetected w)"
  by (auto simp add: fold_Quagga_frame startCameraDetection_started detected_result_def
      Quagga_frame_eq)

theorem streaming_results_are_successes_witness:
  "isInitialized sample_ready
   \<and> invoked (fold (Quagga_frame sample_linear) [0, 1, 2, 1] (startCameraDetection 7 sample_ready)) =
       [(7, \<lparr>success = True, barcode = Some ''4006381333931'', error = None,
             format = Some ''ean_13''\<rparr>),
        (7, \<lparr>success = True, barcode = Some ''4006381333931'', error = None,
             format = Some ''ean_13''\<rparr>)]
   \<and> sample_linear 2 = None
   \<and> Quagga_frame sample_linear 2 (startCameraDetection 7 sample_ready) =
       startCameraDetection 7 sample_ready"
proof -
  have r: "isInitialized sample_ready" "invoked sample_ready = []" "quagga_detected sample_ready = []"
    by (simp_all add: sample_ready_eq)
  have m: "List.map_filter sample_linear [0, 1, 2, 1] =
      [CodeResult ''4006381333931'' ''ean_13'', CodeResult ''4006381333931'' ''ean_13'']"
    by (simp add: sample_linear_def)
  have n: "sample_linear 2 = None"
    by (simp add: sample_linear_def)
  note T = streaming_results_are_successes [OF r(1), of sample_linear "[0, 1, 2, 1]" 7 undefined 2]
  have e1: "invoked (fold (Quagga_frame sample_linear) [0, 1, 2, 1] (startCameraDetection 7 sample_ready)) =
       [(7, \<lparr>success = True, barcode = Some ''4006381333931'', error = None,
             format = Some ''ean_13''\<rparr>),
        (7, \<lparr>success = True, barcode = Some ''4006381333931'', error = None,
             format = Some ''ean_13''\<rparr>)]"
    using T [THEN conjunct1] unfolding m r by (simp add: detected_result_def)
  have e2: "Quagga_frame sample_linear 2 (startCameraDetection 7 sample_ready) =
       startCameraDetection 7 sample_ready"
    using T n by blast
  show ?thesis
    using r(1) e1 n e2 by blast
qed

lemma cleanup_eq:
  "cleanup w =
     (if isInitialized w
      then w\<lparr>isInitialized := False, quagga_running := False, quagga_detected := [],
             quagga_calls := quagga_calls w @ [QStop, QOffDetected]\<rparr>
      else w)"
  by (simp add: cleanup_def stopCameraDetection_def Quagga_stop_def Quagga_offDetected_def)

lemma initializeCamera_with_history:
  "initializeCamera elementId outcome (with_history calls invocations w) =
     (fst (initializeCamera elementId outcome w),
      with_history calls invocations (snd (initializeCamera elementId outcome w)))"
  by (cases outcome)
     (simp_all add: initializeCamera_def initializeCamera_try_def init_promise_def
        with_history_def)

lemma startCameraDetection_with_history:
  "startCameraDetection onDetected (with_history calls invocations w) =
     with_history calls invocations (startCameraDetection onDetected w)"
  by (simp add: startCameraDetection_def invoke_def Quagga_start_def Quagga_onDetected_def
      with_history_def)

lemma stopCameraDetection_with_history:
  "stopCameraDetection (with_history calls invocations w) =
     with_history calls invocations (stopCameraDetection w)"
  by (simp add: stopCameraDetection_def Quagga_stop_def Quagga_offDetected_def with_history_def)

lemma cleanup_with_history:
  "cleanup (with_history calls invocations w) = with_history calls invocations (cleanup w)"
  by (simp add: cleanup_eq with_history_def)

lemma Quagga_frame_with_history:
  "Quagga_frame decodeLive frame (with_history calls invocations w) =
     with_history calls invocations (Quagga_frame decodeLive frame w)"
  by (cases "decodeLive frame") (simp_all add: Quagga_frame_eq with_history_def)

lemma step_with_history:
  "step decodeLive a (with_history calls invocations w) =
     with_history calls invocations (step decodeLive a w)"
  by (cases a)
     (simp_all add: initializeCamera_with_history startCameraDetection_with_history
        stopCameraDetection_with_history cleanup_with_history Quagga_frame_with_history)

lemma run_with_history:
  "fold (step decodeLive) as (with_history calls invocations w) =
     with_history calls invocations (fold (step decodeLive) as w)"
  by (induction as arbitrary: w) (simp_all add: step_with_history)

lemma initializeCamera_consistent:
  "consistent w \<Longrightarrow> consistent (snd (initializeCamera elementId outcome w))"
  by (cases outcome)
     (auto simp add: initializeCamera_def initializeCamera_try_def init_promise_def
        consistent_def)

lemma step_consistent:
  assumes "consistent w"
  shows "consistent (step decodeLive a w)"
proof (cases a)
  case (InitializeCamera elementId outcome)
  then show ?thesis
    using assms by (simp add: initializeCamera_consistent)
next
  case (StartCameraDetection onDetected)
  then show ?thesis
    using assms
    by (auto simp add: startCameraDetection_def invoke_def Quagga_start_def
        Quagga_onDetected_def consistent_def)
next
  case StopCameraDetection
  then show ?thesis
    using assms
    by (auto simp add: stopCameraDetection_def Quagga_stop_def Quagga_offDetected_def
        consistent_def)
next
  case Cleanup
  then show ?thesis
    using assms by (auto simp add: cleanup_eq consistent_def)
next
  case (Frame frame)
  then show ?thesis
    using assms by (auto simp add: Quagga_frame_eq consistent_def)
qed

lemma run_consistent:
  "consistent w \<Longrightarrow> consistent (fold (step decodeLive) as w)"
  by (induction as arbitrary: w) (simp_all add: step_consistent)

lemma initial_world_consistent: "consistent initial_world"
  by (simp add: consistent_def initial_world_def)

lemma cleanup_consistent:
  "consistent w \<Longrightarrow>
   cleanup w = with_history (quagga_calls (cleanup w)) (invoked w) initial_world"
  by (cases w) (auto simp add: cleanup_eq consistent_def with_history_def initial_world_def)

lemma cleanup_initial_world: "cleanup initial_world = initial_world"
  by (simp add: cleanup_eq initial_world_def)

section \<open>cleanup\<close>

text \<open>
  Claim C9: \<open>cleanup\<close> runs \<open>stopCameraDetection\<close> in every case and then clears the
  flag. On an initialized service that stops the pipeline and removes the
  subscriptions; on a service that is not initialized (in particular one on which
  \<open>initializeCamera\<close> was never called) nothing is called on Quagga and nothing
  changes. After \<open>cleanup\<close> the service is as if never initialized: whatever was done
  before (\<open>past\<close>), every later sequence of operations (\<open>future\<close>) leaves exactly the
  state it leaves on a fresh service, with the earlier history in front of the two
  logs, and \<open>initializeCamera\<close> resolves the same way.
\<close>

theorem cleanup_resets_to_uninitialized:
  "cleanup w = (stopCameraDetection w)\<lparr>isInitialized := False\<rparr>
   \<and> cleanup w =
       (if isInitialized w
        then w\<lparr>isInitialized := False, quagga_running := False, quagga_detected := [],
               quagga_calls := quagga_calls w @ [QStop, QOffDetected]\<rparr>
        else w)
   \<and> \<not> isInitialized (cleanup w)
   \<and> cleanup initial_world = initial_world
   \<and> fold (step decodeLive) future (cleanup (fold (step decodeLive) past initial_world)) =
       with_history
         (quagga_calls (cleanup (fold (step decodeLive) past initial_world)))
         (invoked (fold (step decodeLive) past initial_world))
         (fold (step decodeLive) future initial_world)
   \<and> fst (initializeCamera elementId outcome
            (fold (step decodeLive) future (cleanup (fold (step decodeLive) past initial_world)))) =
       fst (initializeCamera elementId outcome (fold (step decodeLive) future initial_world))"
proof -
  let ?w = "fold (step decodeLive) past initial_world"
  have c: "consistent ?w"
    by (rule run_consistent [OF initial_world_consistent])
  have e: "fold (step decodeLive) future (cleanup ?w) =
       with_history (quagga_calls (cleanup ?w)) (invoked ?w)
         (fold (step decodeLive) future initial_world)"
    using cleanup_consistent [OF c] run_with_history by metis
  have a1: "cleanup w = (stopCameraDetection w)\<lparr>isInitialized := False\<rparr>"
    by (simp add: cleanup_def)
  have a5: "fst (initializeCamera elementId outcome (fold (step decodeLive) future (cleanup ?w))) =
       fst (initializeCamera elementId outcome (fold (step decodeLive) future initial_world))"
    by (simp only: e initializeCamera_with_history fst_conv)
  show ?thesis
    by (intro conjI a1 cleanup_eq cleanup_flag cleanup_initial_world e a5)
qed

theorem cleanup_resets_to_uninitialized_witness:
  "cleanup (startCameraDetection 7 sample_ready) =
     \<lparr>isInitialized = False, quagga_running = False, quagga_detected = [],
      quagga_calls = [QInit ''camera-container'', QStart, QOnDetected, QStop, QOffDetected],
      invoked = []\<rparr>
   \<and> cleanup (initial_world :: nat world) = initial_world
   \<and> fold (step sample_linear) [StartCameraDetection 8, Frame 1]
        (cleanup (fold (step sample_linear)
           [InitializeCamera ''camera-container'' InitOk, StartCameraDetection 7, Frame 1]
           (initial_world :: nat world))) =
       \<lparr>isInitialized = False, quagga_running = False, quagga_detected = [],
        quagga_calls = [QInit ''camera-container'', QStart, QOnDetected, QStop, QOffDetected],
        invoked = [(7, detected_result (CodeResult ''4006381333931'' ''ean_13'')),
                   (8, not_initialized_result)]\<rparr>"
proof -
  note T = cleanup_resets_to_uninitialized
    [of "startCameraDetection (7::nat) sample_ready" sample_linear
        "[StartCameraDetection (8::nat), Frame (1::nat)]"
        "[InitializeCamera ''camera-container'' InitOk, StartCameraDetection (7::nat), Frame (1::nat)]"
        "''camera-container''" InitOk]
  have p: "fold (step sample_linear)
        [InitializeCamera ''camera-container'' InitOk, StartCameraDetection 7, Frame 1]
        (initial_world :: nat world) =
      \<lparr>isInitialized = True, quagga_running = True, quagga_detected = [7],
       quagga_calls = [QInit ''camera-container'', QStart, QOnDetected],
       invoked = [(7, detected_result (CodeResult ''4006381333931'' ''ean_13''))]\<rparr>"
    by (simp add: initializeCamera_Ok initial_world_def startCameraDetection_started
        Quagga_frame_eq sample_linear_def)
  have f: "fold (step sample_linear) [StartCameraDetection 8, Frame 1] (initial_world :: nat world) =
      \<lparr>isInitialized = False, quagga_running = False, quagga_detected = [],
       quagga_calls = [], invoked = [(8, not_initialized_result)]\<rparr>"
    by (simp add: initial_world_def startCameraDetection_guard Quagga_frame_eq)
  have s: "startCameraDetection 7 sample_ready =
      \<lparr>isInitialized = True, quagga_running = True, quagga_detected = [7],
       quagga_calls = [QInit ''camera-container'', QStart, QOnDetected], invoked = []\<rparr>"
    by (simp add: sample_ready_eq startCameraDetection_started)
  have g1: "cleanup (startCameraDetection 7 sample_ready) =
     \<lparr>isInitialized = False, quagga_running = False, quagga_detected = [],
      quagga_calls = [QInit ''camera-container'', QStart, QOnDetected, QStop, QOffDetected],
      invoked = []\<rparr>"
    using T [THEN conjunct2, THEN conjunct1] unfolding s by simp
  have g2: "cleanup (initial_world :: nat world) = initial_world"
    by (rule T [THEN conjunct2, THEN conjunct2, THEN conjunct2, THEN conjunct1])
  have g3: "fold (step sample_linear) [StartCameraDetection 8, Frame 1]
        (cleanup (fold (step sample_linear)
           [InitializeCamera ''camera-container'' InitOk, StartCameraDetection 7, Frame 1]
           (initial_world :: nat world))) =
       \<lparr>isInitialized = False, quagga_running = False, quagga_detected = [],
        quagga_calls = [QInit ''camera-container'', QStart, QOnDetected, QStop, QOffDetected],
        invoked = [(7, detected_result (CodeResult ''4006381333931'' ''ean_13'')),
                   (8, not_initialized_result)]\<rparr>"
    unfolding T [THEN conjunct2, THEN conjunct2, THEN conjunct2, THEN conjunct2, THEN conjunct1]
    unfolding p f by (simp add: with_history_def cleanup_eq)
  show ?thesis
    by (intro conjI g1 g2 g3)
qed

end
